theory Spec2Isabelle
  imports
    Main
    "HOL-Library.Word"
    "HOL-Library.Char_ord"
    "HOL-Library.List_Lexorder"
    "HOL-Library.Multiset"
begin

unbundle bit_operations_syntax

chapter \<open>The model\<close>

section \<open>Go string primitives used by the object identity code\<close>

text \<open>
  A Go string is a sequence of bytes, here a \<^typ>\<open>string\<close> (a list of 8-bit characters).
  \<open>strings.Index\<close> and \<open>strings.LastIndex\<close> return the byte offset of the first and of the
  last occurrence of \<open>sep\<close>, or \<open>-1\<close>; \<open>strings.Contains\<close> is \<open>Index \<ge> 0\<close>;
  \<open>strings.HasPrefix\<close> tests whether the second string starts the first.
\<close>

fun HasPrefix :: "string \<Rightarrow> string \<Rightarrow> bool" where
  "HasPrefix s [] = True"
| "HasPrefix [] (p # ps) = False"
| "HasPrefix (c # s) (p # ps) = (c = p \<and> HasPrefix s ps)"

fun Index :: "string \<Rightarrow> string \<Rightarrow> int" where
  "Index [] sep = (if sep = [] then 0 else - 1)"
| "Index (c # s) sep =
     (if HasPrefix (c # s) sep then 0
      else (let r = Index s sep in if r < 0 then - 1 else r + 1))"

fun LastIndex :: "string \<Rightarrow> string \<Rightarrow> int" where
  "LastIndex [] sep = (if sep = [] then 0 else - 1)"
| "LastIndex (c # s) sep =
     (let r = LastIndex s sep in
      if 0 \<le> r then r + 1
      else if HasPrefix (c # s) sep then 0 else - 1)"

definition Contains :: "string \<Rightarrow> string \<Rightarrow> bool" where
  "Contains s substr = (0 \<le> Index s substr)"

text \<open>
  \<open>strings.ReplaceAll s old new\<close> replaces the non-overlapping occurrences of \<open>old\<close>, found
  from left to right. Every call in the code modelled here passes a non-empty \<open>old\<close>: the
  constants \<open>":"\<close> and \<open>"__"\<close>, and in the apply-time mutator a token that the preceding test
  has found non-empty. The first equation (\<open>old\<close> empty, where Go inserts \<open>new\<close> around every
  UTF-8 sequence) is therefore never reached by them and is not modelled.
\<close>

function ReplaceAll :: "string \<Rightarrow> string \<Rightarrow> string \<Rightarrow> string" where
  "ReplaceAll s [] new = s"
| "ReplaceAll [] (p # ps) new = []"
| "ReplaceAll (c # s) (p # ps) new =
     (if HasPrefix (c # s) (p # ps)
      then new @ ReplaceAll (drop (length ps) s) (p # ps) new
      else c # ReplaceAll s (p # ps) new)"
  by pat_completeness auto
termination
  by (relation "measure (\<lambda>(s, old, new). length s)") auto

section \<open>ObjMetadata: the identity of an object\<close>

record GroupKind =
  Group :: string
  Kind :: string

record ObjMetadata =
  Namespace :: string
  Name :: string
  GroupKind :: GroupKind

definition fieldSeparator :: string where
  "fieldSeparator = ''_''"

definition colonTranscoded :: string where
  "colonTranscoded = ''__''"

definition NilObjMetadata :: ObjMetadata where
  "NilObjMetadata = \<lparr>Namespace = [], Name = [], GroupKind = \<lparr>Group = [], Kind = []\<rparr>\<rparr>"

text \<open>\<open>rbacv1.GroupName\<close> of k8s.io/api, the group of the four RBAC kinds.\<close>

definition rbacv1_GroupName :: string where
  "rbacv1_GroupName = ''rbac.authorization.k8s.io''"

definition RBACGroupKind :: "GroupKind \<rightharpoonup> bool" where
  "RBACGroupKind = map_of
     [(\<lparr>Group = rbacv1_GroupName, Kind = ''Role''\<rparr>, True),
      (\<lparr>Group = rbacv1_GroupName, Kind = ''ClusterRole''\<rparr>, True),
      (\<lparr>Group = rbacv1_GroupName, Kind = ''RoleBinding''\<rparr>, True),
      (\<lparr>Group = rbacv1_GroupName, Kind = ''ClusterRoleBinding''\<rparr>, True)]"

datatype parse_error =
    UnableToParse string
  | TooManyFields string
  | EmptyName
  | EmptyKind

definition CreateObjMetadata :: "string \<Rightarrow> string \<Rightarrow> GroupKind \<Rightarrow> parse_error + ObjMetadata" where
  "CreateObjMetadata namespace name gk =
     (if name = [] then Inl EmptyName
      else if Kind gk = [] then Inl EmptyKind
      else Inr \<lparr>Namespace = namespace, Name = name, GroupKind = gk\<rparr>)"

definition ParseObjMetadata :: "string \<Rightarrow> parse_error + ObjMetadata" where
  "ParseObjMetadata s =
     (let index = Index s fieldSeparator in
      if index = - 1 then Inl (UnableToParse s)
      else
        let namespace = take (nat index) s;
            s1 = drop (nat index + 1) s;
            index1 = LastIndex s1 fieldSeparator in
        if index1 = - 1 then Inl (UnableToParse s1)
        else
          let kind = drop (nat index1 + 1) s1;
              s2 = take (nat index1) s1;
              index2 = LastIndex s2 fieldSeparator in
          if index2 = - 1 then Inl (UnableToParse s2)
          else
            let group = drop (nat index2 + 1) s2;
                name = ReplaceAll (take (nat index2) s2) colonTranscoded '':'' in
            if Contains name fieldSeparator then Inl (TooManyFields s2)
            else CreateObjMetadata namespace name \<lparr>Group = group, Kind = kind\<rparr>)"

definition String :: "ObjMetadata \<Rightarrow> string" where
  "String o' =
     (let name = (case RBACGroupKind (GroupKind o') of
                    Some _ \<Rightarrow> ReplaceAll (Name o') '':'' colonTranscoded
                  | None \<Rightarrow> Name o')
      in Namespace o' @ fieldSeparator @ name @ fieldSeparator
           @ Group (GroupKind o') @ fieldSeparator @ Kind (GroupKind o'))"

section \<open>Set arithmetic on slices of identities\<close>

text \<open>
  \<open>SetDiff\<close>, \<open>Union\<close> and \<open>SetEquals\<close> build a Go \<open>map[ObjMetadata]struct{}\<close> and range over
  it. Such a map is a set of keys; it is modelled by the list of its keys without
  repetition. Go leaves the order of a \<open>range\<close> over a map unspecified; the model ranges in
  insertion order, and the theorems below speak only of membership and of repetitions,
  which no order changes.
\<close>

type_synonym 'k keyset = "'k list"

definition map_store :: "'k keyset \<Rightarrow> 'k \<Rightarrow> 'k keyset" where
  "map_store m k = (if k \<in> set m then m else m @ [k])"

definition map_delete :: "'k keyset \<Rightarrow> 'k \<Rightarrow> 'k keyset" where
  "map_delete m k = removeAll k m"

definition SetDiff :: "ObjMetadata list \<Rightarrow> ObjMetadata list \<Rightarrow> ObjMetadata list" where
  "SetDiff setA setB =
     (let m = foldl map_store [] setA;
          m = foldl map_delete m setB
      in foldl (\<lambda>diff r. diff @ [r]) [] m)"

definition Union_ObjMetas :: "ObjMetadata list \<Rightarrow> ObjMetadata list \<Rightarrow> ObjMetadata list" where
  "Union_ObjMetas setA setB =
     (let m = foldl map_store [] setA;
          m = foldl map_store m setB
      in foldl (\<lambda>union u. union @ [u]) [] m)"

definition SetEquals :: "ObjMetadata list \<Rightarrow> ObjMetadata list \<Rightarrow> bool" where
  "SetEquals setA setB =
     (let mapA = foldl map_store [] setA;
          mapB = foldl map_store [] setB
      in if length mapA \<noteq> length mapB then False
         else list_all (\<lambda>b. b \<in> set mapA) mapB)"

text \<open>
  The separator \<open>_\<close> is "not allowed as a character in resource name" (the comment on
  \<open>fieldSeparator\<close>); \<open>separator_free\<close> says that none of the four fields of an identity
  holds it.
\<close>

definition separator_free :: "ObjMetadata \<Rightarrow> bool" where
  "separator_free x =
     (CHR ''_'' \<notin> set (Namespace x) \<and> CHR ''_'' \<notin> set (Name x)
      \<and> CHR ''_'' \<notin> set (Group (GroupKind x)) \<and> CHR ''_'' \<notin> set (Kind (GroupKind x)))"

section \<open>Hash of a slice of identities\<close>

text \<open>
  \<open>hash/fnv\<close>'s 32-bit FNV-1a: the state starts at \<open>offset32\<close>; \<open>Write\<close> folds each byte
  in by exclusive or, then multiplies by \<open>prime32\<close> modulo \<open>2^32\<close>. \<open>Write\<close> of this hash
  never returns an error, so the error branch of \<open>calcHash\<close> is not reached; the result
  type keeps it.
\<close>

definition offset32 :: "32 word" where
  "offset32 = 2166136261"

definition prime32 :: "32 word" where
  "prime32 = 16777619"

definition fnv32a_Write :: "32 word \<Rightarrow> string \<Rightarrow> 32 word" where
  "fnv32a_Write h p = foldl (\<lambda>hash c. (hash XOR of_char c) * prime32) h p"

text \<open>\<open>strconv.FormatUint(i, 16)\<close>: lower-case hexadecimal without leading zeros.\<close>

definition hexdigit :: "nat \<Rightarrow> char" where
  "hexdigit d = ''0123456789abcdef'' ! d"

function FormatUint16 :: "nat \<Rightarrow> string" where
  "FormatUint16 i =
     (if i < 16 then [hexdigit i] else FormatUint16 (i div 16) @ [hexdigit (i mod 16)])"
  by pat_completeness auto
termination
  by (relation "measure id") auto

text \<open>
  \<open>sort.Strings\<close> orders strings bytewise, which is the lexicographic order on
  \<^typ>\<open>string\<close>; strings that compare equal are equal, so the sorted list is unique.
\<close>

definition calcHash :: "string list \<Rightarrow> string + 32 word" where
  "calcHash objs =
     (let objs = sort objs;
          h = foldl fnv32a_Write offset32 objs
      in Inr h)"

definition Hash :: "ObjMetadata list \<Rightarrow> string + string" where
  "Hash objs =
     (let objStrs = foldl (\<lambda>objStrs obj. objStrs @ [String obj]) [] objs in
      case calcHash objStrs of
        Inl err \<Rightarrow> Inl err
      | Inr hashInt \<Rightarrow> Inr (FormatUint16 (unat hashInt)))"

section \<open>ApplyTask: applying the objects of one wave\<close>

text \<open>
  An \<open>unstructured.Unstructured\<close> is modelled by what the task reads of it: the group and
  kind of \<open>GroupVersionKind()\<close>, \<open>GetNamespace()\<close>, \<open>GetName()\<close>, and the rest of its content.
  \<open>UnstructuredToObjMetaOrDie\<close> builds the identity from these; it panics for an object with
  an empty name or kind, which the objects of a task, validated before the task is built,
  do not have, and the panic is not part of the model.
\<close>

record Unstructured =
  GVK_Group :: string
  GVK_Kind :: string
  GetNamespace :: string
  GetName :: string
  Content :: string

definition UnstructuredToObjMetaOrDie :: "Unstructured \<Rightarrow> ObjMetadata" where
  "UnstructuredToObjMetaOrDie obj =
     \<lparr>Namespace = GetNamespace obj, Name = GetName obj,
      GroupKind = \<lparr>Group = GVK_Group obj, Kind = GVK_Kind obj\<rparr>\<rparr>"

text \<open>
  A Go \<open>error\<close> is its message. The task wraps errors in the types of the \<open>applyerror\<close>
  package and, for filters and mutators, in a formatted message that names the object and
  the filter or mutator.
\<close>

datatype task_error =
    UnknownTypeError string
  | ApplyRunError string
  | InitializeApplyOptionError string
  | FilterFailed ObjMetadata string string
  | MutateFailed ObjMetadata string string

datatype ApplyEventOperation = ServersideApplied | Created | Unchanged | Configured

text \<open>
  An event of type \<open>ApplyType\<close> with its \<open>ApplyEvent\<close>. A field the code leaves unset is
  \<open>None\<close>.
\<close>

record ApplyEvent =
  Identifier :: ObjMetadata
  Operation :: "ApplyEventOperation option"
  Resource :: "Unstructured option"
  Error :: "task_error option"

datatype TaskResult = TaskResult

datatype DryRunStrategy = DryRunNone | DryRunClient | DryRunServer

definition ServerDryRun :: "DryRunStrategy \<Rightarrow> bool" where
  "ServerDryRun s = (s = DryRunServer)"

record ServerSideOptions =
  ServerSideApply :: bool
  ForceConflicts :: bool
  FieldManager :: string

text \<open>
  The state the task works on: the events sent on \<open>taskContext.EventChannel()\<close>, the results
  sent on \<open>taskContext.TaskChannel()\<close>, the identities given to \<open>CaptureResourceFailure\<close> and to
  \<open>ResourceApplied\<close>, and the applies sent to the cluster, each with the server-side flag of
  the options that ran it. The task runs in one goroutine; a send on a channel is the next
  entry of the list.
\<close>

record TaskContext =
  EventChannel :: "ApplyEvent list"
  TaskChannel :: "TaskResult list"
  failedResources :: "ObjMetadata list"
  appliedResources :: "(ObjMetadata \<times> string \<times> int) list"
  clusterApplies :: "(bool \<times> ObjMetadata) list"

definition CaptureResourceFailure :: "ObjMetadata \<Rightarrow> TaskContext \<Rightarrow> TaskContext" where
  "CaptureResourceFailure id' tc = tc\<lparr>failedResources := failedResources tc @ [id']\<rparr>"

definition ResourceApplied :: "ObjMetadata \<Rightarrow> string \<Rightarrow> int \<Rightarrow> TaskContext \<Rightarrow> TaskContext" where
  "ResourceApplied id' uid gen tc = tc\<lparr>appliedResources := appliedResources tc @ [(id', uid, gen)]\<rparr>"

definition sendEvent :: "ApplyEvent \<Rightarrow> TaskContext \<Rightarrow> TaskContext" where
  "sendEvent e tc = tc\<lparr>EventChannel := EventChannel tc @ [e]\<rparr>"

text \<open>
  What the task calls outside itself. \<open>factoryError\<close> is the error of
  \<open>factory.ToDiscoveryClient\<close> or \<open>factory.DynamicClient\<close>, if any. \<open>BuildInfo\<close> is
  the error of \<open>InfoHelper.BuildInfo\<close>, if any; the \<open>resource.Info\<close> it returns points to
  the object, so the info is modelled by the object itself, as mutated by the time of the
  apply. \<open>ApplyOptions_Run\<close> is
  kubectl's \<open>ApplyOptions.Run\<close> on that one object under the given server-side flag: it
  returns its error, the events its printer sent, and what \<open>meta.Accessor\<close> finds on
  \<open>info.Object\<close> afterwards (\<open>None\<close> for a nil object, \<open>Inl\<close> for an accessor error, else the
  uid and generation).
\<close>

record RunResult =
  runError :: "string option"
  runEvents :: "ApplyEvent list"
  runObject :: "(string + string \<times> int) option"

record Cluster =
  factoryError :: "string option"
  BuildInfo :: "Unstructured \<Rightarrow> string option"
  ApplyOptions_Run :: "bool \<Rightarrow> Unstructured \<Rightarrow> RunResult"

record ValidationFilter =
  FilterName :: string
  Filter :: "Unstructured \<Rightarrow> bool \<times> string \<times> string option"

record Mutator =
  MutatorName :: string
  Mutate :: "Unstructured \<Rightarrow> Unstructured \<times> bool \<times> string \<times> string option"

record ApplyTask =
  TaskName :: string
  Objects :: "Unstructured list"
  Filters :: "ValidationFilter list"
  Mutators :: "Mutator list"
  DryRunStrategy :: DryRunStrategy
  ServerSideOptions :: ServerSideOptions

text \<open>\<open>applyOptions\<close>: of kubectl's \<open>ApplyOptions\<close>, the server-side flag.\<close>

definition newApplyOptions :: "Cluster \<Rightarrow> ServerSideOptions \<Rightarrow> DryRunStrategy \<Rightarrow> string + bool" where
  "newApplyOptions cl serverSideOptions strategy =
     (case factoryError cl of
        Some err \<Rightarrow> Inl err
      | None \<Rightarrow> Inr (ServerDryRun strategy \<or> ServerSideApply serverSideOptions))"

definition createApplyEvent :: "ObjMetadata \<Rightarrow> ApplyEventOperation \<Rightarrow> Unstructured \<Rightarrow> ApplyEvent" where
  "createApplyEvent id' operation resource =
     \<lparr>Identifier = id', Operation = Some operation, Resource = Some resource, Error = None\<rparr>"

definition createApplyFailedEvent :: "ObjMetadata \<Rightarrow> task_error \<Rightarrow> ApplyEvent" where
  "createApplyFailedEvent id' err =
     \<lparr>Identifier = id', Operation = None, Resource = None, Error = Some err\<rparr>"

fun sendBatchApplyEvents :: "Unstructured list \<Rightarrow> string \<Rightarrow> TaskContext \<Rightarrow> TaskContext" where
  "sendBatchApplyEvents [] err tc = tc"
| "sendBatchApplyEvents (obj # objects) err tc =
     (let id' = UnstructuredToObjMetaOrDie obj;
          tc = sendEvent (createApplyFailedEvent id' (InitializeApplyOptionError err)) tc;
          tc = CaptureResourceFailure id' tc
      in sendBatchApplyEvents objects err tc)"


text \<open>\<open>ApplyTask.filter\<close>, as a loop over the filters left to run.\<close>

fun filter_loop :: "ObjMetadata \<Rightarrow> ValidationFilter list \<Rightarrow> Unstructured \<Rightarrow> bool \<times> task_error option" where
  "filter_loop id' [] obj = (False, None)"
| "filter_loop id' (f # fs) obj =
     (case Filter f obj of
        (filtered, reason, Some err) \<Rightarrow> (True, Some (FilterFailed id' (FilterName f) err))
      | (filtered, reason, None) \<Rightarrow>
          if filtered then (True, None) else filter_loop id' fs obj)"

definition filter_obj :: "ApplyTask \<Rightarrow> Unstructured \<Rightarrow> bool \<times> task_error option" where
  "filter_obj a obj = filter_loop (UnstructuredToObjMetaOrDie obj) (Filters a) obj"

text \<open>
  \<open>ApplyTask.mutate\<close>. A mutator changes the object in place; the model returns the object
  as the mutators left it, also when one of them failed.
\<close>

fun mutate_loop :: "ObjMetadata \<Rightarrow> Mutator list \<Rightarrow> Unstructured \<Rightarrow> Unstructured \<times> task_error option" where
  "mutate_loop id' [] obj = (obj, None)"
| "mutate_loop id' (m # ms) obj =
     (case Mutate m obj of
        (obj', mutated, reason, Some err) \<Rightarrow> (obj', Some (MutateFailed id' (MutatorName m) err))
      | (obj', mutated, reason, None) \<Rightarrow> mutate_loop id' ms obj')"

definition mutate_obj :: "ApplyTask \<Rightarrow> Unstructured \<Rightarrow> Unstructured \<times> task_error option" where
  "mutate_obj a obj = mutate_loop (UnstructuredToObjMetaOrDie obj) (Mutators a) obj"

definition isAPIService :: "Unstructured \<Rightarrow> bool" where
  "isAPIService obj = (GVK_Group obj = ''apiregistration.k8s.io'' \<and> GVK_Kind obj = ''APIService'')"

definition isStreamError :: "string \<Rightarrow> bool" where
  "isStreamError err = Contains err ''stream error: stream ID ''"

text \<open>
  One \<open>ao.Run()\<close> on the object: the apply is sent to the cluster, the printer's events go
  to the event channel.
\<close>

definition run_apply :: "Cluster \<Rightarrow> bool \<Rightarrow> Unstructured \<Rightarrow> TaskContext \<Rightarrow> RunResult \<times> TaskContext" where
  "run_apply cl serverSide info tc =
     (let r = ApplyOptions_Run cl serverSide info
      in (r, tc\<lparr>EventChannel := EventChannel tc @ runEvents r,
                clusterApplies := clusterApplies tc
                   @ [(serverSide, UnstructuredToObjMetaOrDie info)]\<rparr>))"

definition clientSideApply ::
  "Cluster \<Rightarrow> Unstructured \<Rightarrow> DryRunStrategy \<Rightarrow> TaskContext \<Rightarrow> RunResult \<times> TaskContext" where
  "clientSideApply cl info strategy tc =
     (case newApplyOptions cl \<lparr>ServerSideApply = False, ForceConflicts = False, FieldManager = []\<rparr>
             strategy of
        Inl err \<Rightarrow> (\<lparr>runError = Some err, runEvents = [], runObject = None\<rparr>, tc)
      | Inr ao \<Rightarrow> run_apply cl ao info tc)"

text \<open>
  The body of the loop of \<open>Start\<close> over the objects of the task, for one object. Its last
  part, from \<open>ao.SetObjects\<close> on, is \<open>applyInfo\<close>: the apply with the fallback for an
  \<open>APIService\<close> (\<open>applyWithFallback\<close>), then the report of the outcome.
\<close>

definition applyWithFallback ::
  "Cluster \<Rightarrow> ApplyTask \<Rightarrow> bool \<Rightarrow> Unstructured \<Rightarrow> TaskContext \<Rightarrow> RunResult \<times> TaskContext" where
  "applyWithFallback cl a ao info tc =
     (let (r, tc) = run_apply cl ao info tc
      in case runError r of
           Some err \<Rightarrow>
             if ServerSideApply (ServerSideOptions a) \<and> isAPIService info \<and> isStreamError err
             then clientSideApply cl info (DryRunStrategy a) tc
             else (r, tc)
         | None \<Rightarrow> (r, tc))"

definition applyInfo ::
  "Cluster \<Rightarrow> ApplyTask \<Rightarrow> bool \<Rightarrow> ObjMetadata \<Rightarrow> Unstructured \<Rightarrow> TaskContext \<Rightarrow> TaskContext" where
  "applyInfo cl a ao id' info tc =
     (let (r, tc) = applyWithFallback cl a ao info tc
      in case runError r of
           Some err \<Rightarrow>
             CaptureResourceFailure id'
               (sendEvent (createApplyFailedEvent id' (ApplyRunError err)) tc)
         | None \<Rightarrow>
             (case runObject r of
                Some (Inr (uid, gen)) \<Rightarrow> ResourceApplied id' uid gen tc
              | Some (Inl err) \<Rightarrow> tc
              | None \<Rightarrow> tc))"

definition applyObject :: "Cluster \<Rightarrow> ApplyTask \<Rightarrow> bool \<Rightarrow> Unstructured \<Rightarrow> TaskContext \<Rightarrow> TaskContext" where
  "applyObject cl a ao obj tc =
     (let id' = UnstructuredToObjMetaOrDie obj in
      case BuildInfo cl obj of
        Some err \<Rightarrow>
          CaptureResourceFailure id'
            (sendEvent (createApplyFailedEvent id' (UnknownTypeError err)) tc)
      | None \<Rightarrow>
          (case filter_obj a obj of
             (filtered, Some err) \<Rightarrow>
               CaptureResourceFailure id' (sendEvent (createApplyFailedEvent id' err) tc)
           | (filtered, None) \<Rightarrow>
               if filtered
               then CaptureResourceFailure id' (sendEvent (createApplyEvent id' Unchanged obj) tc)
               else
                 (case mutate_obj a obj of
                    (info, Some err) \<Rightarrow>
                      CaptureResourceFailure id' (sendEvent (createApplyFailedEvent id' err) tc)
                  | (info, None) \<Rightarrow> applyInfo cl a ao id' info tc)))"

fun applyObjects :: "Cluster \<Rightarrow> ApplyTask \<Rightarrow> bool \<Rightarrow> Unstructured list \<Rightarrow> TaskContext \<Rightarrow> TaskContext" where
  "applyObjects cl a ao [] tc = tc"
| "applyObjects cl a ao (obj # objects) tc = applyObjects cl a ao objects (applyObject cl a ao obj tc)"









section \<open>The apply-time mutator\<close>

text \<open>
  The value of a field is a Go \<open>interface{}\<close>. The datatype has one constructor for each
  dynamic type that \<open>valueToString\<close> tells apart, \<open>nil\<close>, and the two containers that the
  YAML decoder produces. Integers are two's-complement words (\<open>int\<close> is 64 bits wide);
  a float is kept as its IEEE bit pattern.
\<close>

datatype yvalue =
    VNil
  | VString string
  | VBool bool
  | VInt "64 word"
  | VInt32 "32 word"
  | VInt64 "64 word"
  | VFloat32 "32 word"
  | VFloat64 "64 word"
  | VList "yvalue list"
  | VMap "(string \<times> yvalue) list"

text \<open>\<open>obj.Object\<close>, the content of an \<open>unstructured.Unstructured\<close>: a \<open>map[string]interface{}\<close>.\<close>

type_synonym KObject = "(string \<times> yvalue) list"

text \<open>The verb \<open>%T\<close> of \<open>fmt\<close>: the name of the dynamic type.\<close>

fun typeName :: "yvalue \<Rightarrow> string" where
  "typeName VNil = ''<nil>''"
| "typeName (VString s) = ''string''"
| "typeName (VBool b) = ''bool''"
| "typeName (VInt i) = ''int''"
| "typeName (VInt32 i) = ''int32''"
| "typeName (VInt64 i) = ''int64''"
| "typeName (VFloat32 f) = ''float32''"
| "typeName (VFloat64 f) = ''float64''"
| "typeName (VList xs) = ''[]interface {}''"
| "typeName (VMap m) = ''map[string]interface {}''"

text \<open>The verb \<open>%v\<close> of \<open>fmt\<close> on an integer (decimal, with a sign) and on a bool.\<close>

definition decdigit :: "nat \<Rightarrow> char" where
  "decdigit d = ''0123456789'' ! d"

function FormatUint10 :: "nat \<Rightarrow> string" where
  "FormatUint10 i =
     (if i < 10 then [decdigit i] else FormatUint10 (i div 10) @ [decdigit (i mod 10)])"
  by pat_completeness auto
termination
  by (relation "measure id") auto

definition FormatInt10 :: "int \<Rightarrow> string" where
  "FormatInt10 i = (if i < 0 then CHR ''-'' # FormatUint10 (nat (- i)) else FormatUint10 (nat i))"

definition FormatBool :: "bool \<Rightarrow> string" where
  "FormatBool b = (if b then ''true'' else ''false'')"

text \<open>
  Modelled from the spec: the package \<open>mutation\<close> (the reference and substitution records,
  the annotation reader) is not part of the sources. A substitution is the record
  \<open>{sourceRef, sourcePath, targetPath, token?}\<close>; of a reference the mutator reads the name,
  the namespace, and the group, version and kind of \<open>GroupVersionKind()\<close>, and \<open>Equal\<close>
  compares these five. The annotation is \<open>config.kubernetes.io/apply-time-mutation\<close>.
\<close>

record ResourceReference =
  RefGroup :: string
  RefVersion :: string
  RefKind :: string
  RefName :: string
  RefNamespace :: string

record FieldSubstitution =
  SourceRef :: ResourceReference
  SourcePath :: string
  TargetPath :: string
  Token :: string

definition mutation_Annotation :: string where
  "mutation_Annotation = ''config.kubernetes.io/apply-time-mutation''"

definition GroupVersionKind :: "ResourceReference \<Rightarrow> string \<times> string \<times> string" where
  "GroupVersionKind r = (RefGroup r, RefVersion r, RefKind r)"

text \<open>
  The libraries that the mutator and \<open>kyq\<close> call, as parameters of the model. An error of a
  library is its message. \<open>'y\<close> is a YAML document as bytes, \<open>'n\<close> a node tree of
  \<open>yaml.v3\<close>, \<open>'e\<close> a parsed expression of \<open>yqlib\<close>.

  \<^item> \<open>yaml_Marshal\<close>, \<open>yaml_Unmarshal\<close> (into a fresh \<open>interface{}\<close>), \<open>yaml_Decode\<close> (into a
    node): \<open>yaml.v3\<close>. \<open>yaml_Unmarshal_into bytes obj\<close> is \<open>yaml.Unmarshal(bytes, &obj)\<close> on an
    existing map: the content of the map afterwards, and the error if any.
  \<^item> \<open>json_Marshal\<close>: \<open>encoding/json\<close>.
  \<^item> \<open>ParseExpression\<close>, \<open>GetMatchingNodes\<close>: the parser and the navigator of \<open>yqlib\<close>;
    \<open>PrintResults\<close>: its printer, with the bytes it has written and its error if any;
    \<open>no_bytes\<close> is the content of the output buffer before anything is written.
  \<^item> \<open>Sprintf_float32\<close>, \<open>Sprintf_float64\<close>: the verb \<open>%v\<close> on a float.
  \<^item> \<open>NewResourceReference\<close>, \<open>HasAnnotation\<close>, \<open>ReadAnnotation\<close>,
    \<open>ResourceReferenceToObjMeta\<close>: the package \<open>mutation\<close>.
\<close>

record ('e, 'n, 'y) Libraries =
  yaml_Marshal :: "KObject \<Rightarrow> string + 'y"
  yaml_Unmarshal :: "'y \<Rightarrow> string + yvalue"
  yaml_Unmarshal_into :: "'y \<Rightarrow> KObject \<Rightarrow> KObject \<times> string option"
  yaml_Decode :: "'y \<Rightarrow> string + 'n"
  json_Marshal :: "yvalue \<Rightarrow> string + string"
  ParseExpression :: "string \<Rightarrow> string + 'e"
  GetMatchingNodes :: "'n \<Rightarrow> 'e \<Rightarrow> string + 'n list"
  PrintResults :: "'n list \<Rightarrow> 'y \<times> string option"
  no_bytes :: 'y
  Sprintf_float32 :: "32 word \<Rightarrow> string"
  Sprintf_float64 :: "64 word \<Rightarrow> string"
  NewResourceReference :: "KObject \<Rightarrow> ResourceReference"
  HasAnnotation :: "KObject \<Rightarrow> bool"
  ReadAnnotation :: "KObject \<Rightarrow> string + FieldSubstitution list"
  ResourceReferenceToObjMeta :: "ResourceReference \<Rightarrow> string + ObjMetadata"

text \<open>
  The errors of the mutator. \<open>LibraryError\<close> is an error of a library, passed on as it is;
  a constructor with an error argument wraps that error (\<open>%w\<close>).
\<close>

datatype merror =
    LibraryError string
  | EmptyPathExpression
  | PathStartsWithDollar
  | ReadResourceFieldFailed string merror
  | MarshalValueFailed yvalue
  | ReadAnnotationFailed ResourceReference merror
  | InvalidSelfReference ResourceReference
  | ValidateReferenceFailed ResourceReference merror
  | IdentifyMappingFailed merror
  | RetrieveResourceFailed merror
  | GetSourceFailed ResourceReference merror
  | ReadTargetFieldFailed string ResourceReference merror
  | ReadSourceFieldFailed string ResourceReference merror
  | SourceFieldNotPresent string ResourceReference
  | TargetValueNotString string
  | StringifyFailed ResourceReference merror
  | SetFieldFailed ResourceReference merror

subsection \<open>Package kyq\<close>

text \<open>
  \<open>evaluateStream\<close> returns \<open>(found, err)\<close> and prints into the output buffer; the model
  returns the content of the buffer with them.
\<close>

definition evaluateStream ::
  "('e, 'n, 'y) Libraries \<Rightarrow> 'y \<Rightarrow> 'e \<Rightarrow> 'y \<times> bool \<times> merror option" where
  "evaluateStream X reader exNode =
     (case yaml_Decode X reader of
        Inl err \<Rightarrow> (no_bytes X, False, Some (LibraryError err))
      | Inr input \<Rightarrow>
          (case GetMatchingNodes X input exNode of
             Inl err \<Rightarrow> (no_bytes X, False, Some (LibraryError err))
           | Inr result \<Rightarrow>
               (let found = (length result > 0) in
                if \<not> found then (no_bytes X, False, None)
                else (case PrintResults X result of
                        (out, Some err) \<Rightarrow> (out, found, Some (LibraryError err))
                      | (out, None) \<Rightarrow> (out, found, None)))))"

definition evaluateYaml ::
  "('e, 'n, 'y) Libraries \<Rightarrow> 'y \<Rightarrow> string \<Rightarrow> 'y \<times> bool \<times> merror option" where
  "evaluateYaml X yamlBytes expression =
     (case ParseExpression X expression of
        Inl err \<Rightarrow> (no_bytes X, False, Some (LibraryError err))
      | Inr node \<Rightarrow> evaluateStream X yamlBytes node)"

definition kyq_Get ::
  "('e, 'n, 'y) Libraries \<Rightarrow> KObject \<Rightarrow> string \<Rightarrow> merror + (yvalue \<times> bool)" where
  "kyq_Get X obj expression =
     (case yaml_Marshal X obj of
        Inl err \<Rightarrow> Inl (LibraryError err)
      | Inr yamlBytes \<Rightarrow>
          (case evaluateYaml X yamlBytes expression of
             (out, found, Some err) \<Rightarrow> Inl err
           | (out, found, None) \<Rightarrow>
               if \<not> found then Inr (VNil, False)
               else (case yaml_Unmarshal X out of
                       Inl err \<Rightarrow> Inl (LibraryError err)
                     | Inr result \<Rightarrow> Inr (result, True))))"

text \<open>
  \<open>Set\<close> updates the map in place; the model returns the content of the map afterwards
  together with the error.
\<close>

definition kyq_Set ::
  "('e, 'n, 'y) Libraries \<Rightarrow> KObject \<Rightarrow> string \<Rightarrow> yvalue \<Rightarrow> KObject \<times> merror option" where
  "kyq_Set X obj expression v =
     (case yaml_Marshal X obj of
        Inl err \<Rightarrow> (obj, Some (LibraryError err))
      | Inr yamlBytes \<Rightarrow>
          (case json_Marshal X v of
             Inl err \<Rightarrow> (obj, Some (LibraryError err))
           | Inr jsonBytes \<Rightarrow>
               (let expression = ''('' @ expression @ '') = '' @ jsonBytes in
                case evaluateYaml X yamlBytes expression of
                  (out, found, Some err) \<Rightarrow> (obj, Some err)
                | (out, found, None) \<Rightarrow>
                    if \<not> found then (obj, None)
                    else (case yaml_Unmarshal_into X out obj of
                            (obj', Some err) \<Rightarrow> (obj', Some (LibraryError err))
                          | (obj', None) \<Rightarrow> (obj', None)))))"

subsection \<open>Reading and writing a field, and the string of a value\<close>

definition readFieldValue ::
  "('e, 'n, 'y) Libraries \<Rightarrow> KObject \<Rightarrow> string \<Rightarrow> merror + (yvalue \<times> bool)" where
  "readFieldValue X obj path =
     (if path = [] then Inl EmptyPathExpression
      else if HasPrefix path ''$.'' then Inl PathStartsWithDollar
      else (case kyq_Get X obj path of
              Inl err \<Rightarrow> Inl (ReadResourceFieldFailed path err)
            | Inr (v, found) \<Rightarrow> Inr (v, found)))"

definition writeFieldValue ::
  "('e, 'n, 'y) Libraries \<Rightarrow> KObject \<Rightarrow> string \<Rightarrow> yvalue \<Rightarrow> KObject \<times> merror option" where
  "writeFieldValue X obj path v =
     (if path = [] then (obj, Some EmptyPathExpression)
      else if HasPrefix path ''$.'' then (obj, Some PathStartsWithDollar)
      else (case kyq_Set X obj path v of
              (obj', Some err) \<Rightarrow> (obj', Some (ReadResourceFieldFailed path err))
            | (obj', None) \<Rightarrow> (obj', None)))"

fun valueToString :: "('e, 'n, 'y) Libraries \<Rightarrow> yvalue \<Rightarrow> merror + string" where
  "valueToString X (VString s) = Inr s"
| "valueToString X (VInt i) = Inr (FormatInt10 (sint i))"
| "valueToString X (VInt32 i) = Inr (FormatInt10 (sint i))"
| "valueToString X (VInt64 i) = Inr (FormatInt10 (sint i))"
| "valueToString X (VFloat32 f) = Inr (Sprintf_float32 X f)"
| "valueToString X (VFloat64 f) = Inr (Sprintf_float64 X f)"
| "valueToString X (VBool b) = Inr (FormatBool b)"
| "valueToString X v =
     (case json_Marshal X v of
        Inl err \<Rightarrow> Inl (MarshalValueFailed v)
      | Inr jsonBytes \<Rightarrow> Inr jsonBytes)"

subsection \<open>ApplyTimeMutator\<close>

text \<open>
  \<open>Client\<close> is the dynamic client, from a resource, a namespace and a name to the object
  in the cluster; \<open>Mapper\<close> is \<open>RESTMapping\<close>, from a group and kind and the versions asked
  for to the resource of the mapping. \<open>ResourceCache\<close> is \<open>None\<close> for the nil interface;
  a cache holds, per identity, an object pointer that may be nil, the newest entry first.
\<close>

record ApplyTimeMutator =
  Client :: "string \<Rightarrow> string \<Rightarrow> string \<Rightarrow> string + KObject"
  Mapper :: "GroupKind \<Rightarrow> string list \<Rightarrow> string + string"
  ResourceCache :: "(ObjMetadata \<times> KObject option) list option"

definition ResourceCache_Get ::
  "(ObjMetadata \<times> KObject option) list \<Rightarrow> ObjMetadata \<Rightarrow> KObject option \<times> bool" where
  "ResourceCache_Get c ident =
     (case map_of c ident of None \<Rightarrow> (None, False) | Some obj \<Rightarrow> (obj, True))"

definition ResourceCache_Set ::
  "(ObjMetadata \<times> KObject option) list \<Rightarrow> ObjMetadata \<Rightarrow> KObject
     \<Rightarrow> (ObjMetadata \<times> KObject option) list" where
  "ResourceCache_Set c ident obj = (ident, Some obj) # c"

text \<open>
  \<open>getObject\<close>, in two parts: the lookup in the cluster, and before it the validation of
  the reference and the lookup in the cache. The mutator is returned with its cache.
\<close>

definition getObject_cluster ::
  "ApplyTimeMutator \<Rightarrow> ResourceReference \<Rightarrow> ObjMetadata
     \<Rightarrow> (merror + KObject) \<times> ApplyTimeMutator" where
  "getObject_cluster atm ref ident =
     (let (g, version, k) = GroupVersionKind ref;
          mapping = (if version \<noteq> [] then Mapper atm \<lparr>Group = g, Kind = k\<rparr> [version]
                     else Mapper atm \<lparr>Group = g, Kind = k\<rparr> [])
      in case mapping of
           Inl err \<Rightarrow> (Inl (IdentifyMappingFailed (LibraryError err)), atm)
         | Inr resource \<Rightarrow>
             (case Client atm resource (RefNamespace ref) (RefName ref) of
                Inl err \<Rightarrow> (Inl (RetrieveResourceFailed (LibraryError err)), atm)
              | Inr obj \<Rightarrow>
                  (Inr obj,
                   (case ResourceCache atm of
                      None \<Rightarrow> atm
                    | Some c \<Rightarrow> atm\<lparr>ResourceCache := Some (ResourceCache_Set c ident obj)\<rparr>))))"

definition getObject ::
  "('e, 'n, 'y) Libraries \<Rightarrow> ApplyTimeMutator \<Rightarrow> ResourceReference
     \<Rightarrow> (merror + KObject) \<times> ApplyTimeMutator" where
  "getObject X atm ref =
     (case ResourceReferenceToObjMeta X ref of
        Inl err \<Rightarrow> (Inl (ValidateReferenceFailed ref (LibraryError err)), atm)
      | Inr ident \<Rightarrow>
          (case ResourceCache atm of
             None \<Rightarrow> getObject_cluster atm ref ident
           | Some c \<Rightarrow>
               (case ResourceCache_Get c ident of
                  (Some obj, True) \<Rightarrow> (Inr obj, atm)
                | _ \<Rightarrow> getObject_cluster atm ref ident)))"

text \<open>
  The state of \<open>Mutate\<close> while it loops: the two results \<open>mutated\<close> and \<open>reason\<close>, the target
  object, which is updated in place, and the mutator with its cache. \<open>Mutate\<close> returns this
  state together with the error, since the target keeps the substitutions made before an
  error.
\<close>

record MutateState =
  mutated :: bool
  reason :: string
  target :: KObject
  mutator :: ApplyTimeMutator

text \<open>The value written for one substitution: the \<open>if sub.Token == ""\<close> of the loop body.\<close>

definition newValue ::
  "('e, 'n, 'y) Libraries \<Rightarrow> ResourceReference \<Rightarrow> FieldSubstitution \<Rightarrow> yvalue \<Rightarrow> yvalue
     \<Rightarrow> merror + yvalue" where
  "newValue X targetRef sub targetValue sourceValue =
     (if Token sub = [] then Inr sourceValue
      else (case targetValue of
              VString targetValueString \<Rightarrow>
                (case valueToString X sourceValue of
                   Inl err \<Rightarrow> Inl (StringifyFailed targetRef err)
                 | Inr sourceValueString \<Rightarrow>
                     Inr (VString (ReplaceAll targetValueString (Token sub) sourceValueString)))
            | _ \<Rightarrow> Inl (TargetValueNotString (typeName targetValue))))"

text \<open>The body of the second loop of \<open>Mutate\<close>; an error ends the loop.\<close>

definition substitute ::
  "('e, 'n, 'y) Libraries \<Rightarrow> ResourceReference \<Rightarrow> FieldSubstitution \<Rightarrow> MutateState
     \<Rightarrow> MutateState \<times> merror option" where
  "substitute X targetRef sub st =
     (let sourceRef = SourceRef sub;
          (got, atm) = getObject X (mutator st) sourceRef;
          st = st\<lparr>mutator := atm\<rparr>
      in case got of
           Inl err \<Rightarrow> (st, Some (GetSourceFailed sourceRef err))
         | Inr sourceObj \<Rightarrow>
             (case readFieldValue X (target st) (TargetPath sub) of
                Inl err \<Rightarrow> (st, Some (ReadTargetFieldFailed (TargetPath sub) targetRef err))
              | Inr (targetValue, targetFound) \<Rightarrow>
                  (case readFieldValue X sourceObj (SourcePath sub) of
                     Inl err \<Rightarrow> (st, Some (ReadSourceFieldFailed (SourcePath sub) sourceRef err))
                   | Inr (sourceValue, found) \<Rightarrow>
                       if \<not> found
                       then (st, Some (SourceFieldNotPresent (SourcePath sub) sourceRef))
                       else (case newValue X targetRef sub targetValue sourceValue of
                               Inl err \<Rightarrow> (st, Some err)
                             | Inr v \<Rightarrow>
                                 (case writeFieldValue X (target st) (TargetPath sub) v of
                                    (obj, Some err) \<Rightarrow>
                                      (st\<lparr>target := obj\<rparr>, Some (SetFieldFailed targetRef err))
                                  | (obj, None) \<Rightarrow>
                                      (st\<lparr>mutated := True,
                                          reason := ''resource contained annotation: ''
                                                      @ mutation_Annotation,
                                          target := obj\<rparr>, None))))))"

fun substitutions ::
  "('e, 'n, 'y) Libraries \<Rightarrow> ResourceReference \<Rightarrow> FieldSubstitution list \<Rightarrow> MutateState
     \<Rightarrow> MutateState \<times> merror option" where
  "substitutions X targetRef [] st = (st, None)"
| "substitutions X targetRef (sub # subs) st =
     (case substitute X targetRef sub st of
        (st', Some err) \<Rightarrow> (st', Some err)
      | (st', None) \<Rightarrow> substitutions X targetRef subs st')"

definition ApplyTimeMutator_Mutate ::
  "('e, 'n, 'y) Libraries \<Rightarrow> ApplyTimeMutator \<Rightarrow> KObject \<Rightarrow> MutateState \<times> merror option" where
  "ApplyTimeMutator_Mutate X atm obj =
     (let st = \<lparr>mutated = False, reason = [], target = obj, mutator = atm\<rparr>;
          targetRef = NewResourceReference X obj
      in if \<not> HasAnnotation X obj then (st, None)
         else (case ReadAnnotation X obj of
                 Inl err \<Rightarrow> (st, Some (ReadAnnotationFailed targetRef (LibraryError err)))
               | Inr subs \<Rightarrow>
                   (case find (\<lambda>sub. targetRef = SourceRef sub) subs of
                      Some sub \<Rightarrow> (st, Some (InvalidSelfReference (SourceRef sub)))
                    | None \<Rightarrow> substitutions X targetRef subs st)))"

subsection \<open>An example: a secret injected into a URL\<close>

text \<open>
  A target whose \<open>spec.url\<close> holds the token \<open>${SECRET}\<close>, a source whose \<open>spec.secret\<close> is
  \<open>XYZ\<close>, and libraries for them: a YAML document stands for its own bytes and node tree, an
  expression is a path of keys or an assignment to one, and the parser knows the
  expressions of the example, among them a path in parentheses, the form in which
  \<open>kyq.Set\<close> itself passes a path to \<open>yqlib\<close>.
\<close>

datatype ex_expr = EPath "string list" | EAssign "string list" yvalue

fun ex_get :: "yvalue \<Rightarrow> string list \<Rightarrow> yvalue option" where
  "ex_get v [] = Some v"
| "ex_get (VMap m) (k # ks) = (case map_of m k of None \<Rightarrow> None | Some v \<Rightarrow> ex_get v ks)"
| "ex_get v (k # ks) = None"

fun ex_set :: "yvalue \<Rightarrow> string list \<Rightarrow> yvalue \<Rightarrow> yvalue" where
  "ex_set v [] new = new"
| "ex_set (VMap m) (k # ks) new =
     VMap (map (\<lambda>(k', v'). if k' = k then (k', ex_set v' ks new) else (k', v')) m)"
| "ex_set v (k # ks) new = v"

definition ex_quote :: "string \<Rightarrow> string" where
  "ex_quote s = CHR 0x22 # s @ [CHR 0x22]"

definition ex_source_ref :: ResourceReference where
  "ex_source_ref = \<lparr>RefGroup = '''', RefVersion = ''v1'', RefKind = ''Secret'',
     RefName = ''source'', RefNamespace = ''default''\<rparr>"

definition ex_target_ref :: ResourceReference where
  "ex_target_ref = \<lparr>RefGroup = '''', RefVersion = ''v1'', RefKind = ''ConfigMap'',
     RefName = ''target'', RefNamespace = ''default''\<rparr>"

definition ex_source :: KObject where
  "ex_source = [(''kind'', VString ''Secret''), (''spec'', VMap [(''secret'', VString ''XYZ'')])]"

definition ex_target :: KObject where
  "ex_target = [(''kind'', VString ''ConfigMap''),
     (''spec'', VMap [(''url'', VString ''https://${SECRET}/path'')])]"

definition ex_substitution :: FieldSubstitution where
  "ex_substitution = \<lparr>SourceRef = ex_source_ref, SourcePath = ''.spec.secret'',
     TargetPath = ''.spec.url'', Token = ''${SECRET}''\<rparr>"

definition ex_expressions :: "(string \<times> ex_expr) list" where
  "ex_expressions =
     [(''.spec.secret'', EPath [''spec'', ''secret'']),
      (''.spec.url'', EPath [''spec'', ''url'']),
      (''(.spec.url) = '' @ ex_quote ''https://XYZ/path'',
         EAssign [''spec'', ''url''] (VString ''https://XYZ/path'')),
      (''(.kind)'', EPath [''kind'']),
      (''((.kind)) = '' @ ex_quote ''Secret'', EAssign [''kind''] (VString ''Secret''))]"

definition ex_libraries :: "(ex_expr, yvalue, yvalue) Libraries" where
  "ex_libraries =
     \<lparr>yaml_Marshal = (\<lambda>obj. Inr (VMap obj)),
      yaml_Unmarshal = (\<lambda>y. Inr y),
      yaml_Unmarshal_into =
        (\<lambda>y obj. case y of VMap m \<Rightarrow> (m, None) | _ \<Rightarrow> (obj, Some ''cannot unmarshal into map'')),
      yaml_Decode = (\<lambda>y. Inr y),
      json_Marshal =
        (\<lambda>v. case v of VString s \<Rightarrow> Inr (ex_quote s) | _ \<Rightarrow> Inl ''unsupported value''),
      ParseExpression =
        (\<lambda>s. case map_of ex_expressions s of
               None \<Rightarrow> Inl ''bad expression'' | Some e \<Rightarrow> Inr e),
      GetMatchingNodes =
        (\<lambda>doc e. case e of
                   EPath p \<Rightarrow> (case ex_get doc p of None \<Rightarrow> Inr [] | Some v \<Rightarrow> Inr [v])
                 | EAssign p v \<Rightarrow> Inr [ex_set doc p v]),
      PrintResults = (\<lambda>nodes. (hd nodes, None)),
      no_bytes = VNil,
      Sprintf_float32 = (\<lambda>f. ''float32''),
      Sprintf_float64 = (\<lambda>f. ''float64''),
      NewResourceReference = (\<lambda>obj. if obj = ex_source then ex_source_ref else ex_target_ref),
      HasAnnotation = (\<lambda>obj. obj = ex_target),
      ReadAnnotation = (\<lambda>obj. Inr [ex_substitution]),
      ResourceReferenceToObjMeta =
        (\<lambda>r. Inr \<lparr>Namespace = RefNamespace r, Name = RefName r,
                  GroupKind = \<lparr>Group = RefGroup r, Kind = RefKind r\<rparr>\<rparr>)\<rparr>"


chapter \<open>Theorems\<close>

section \<open>Properties of the set arithmetic\<close>

lemma foldl_snoc_id: "foldl (\<lambda>acc r. acc @ [r]) acc m = acc @ m"
  by (induction m arbitrary: acc) simp_all

lemma set_foldl_map_store: "set (foldl map_store m xs) = set m \<union> set xs"
  by (induction xs arbitrary: m) (auto simp: map_store_def)

lemma distinct_foldl_map_store: "distinct m \<Longrightarrow> distinct (foldl map_store m xs)"
  by (induction xs arbitrary: m) (auto simp: map_store_def)

lemma set_foldl_map_delete: "set (foldl map_delete m xs) = set m - set xs"
  by (induction xs arbitrary: m) (auto simp: map_delete_def)

lemma distinct_foldl_map_delete: "distinct m \<Longrightarrow> distinct (foldl map_delete m xs)"
  by (induction xs arbitrary: m) (auto simp: map_delete_def distinct_removeAll)

text \<open>
  C9. \<open>Union A B\<close> (here \<open>Union_ObjMetas\<close>) holds exactly the elements of \<open>A\<close> and of \<open>B\<close>, each once; \<open>SetDiff A B\<close>
  holds exactly the elements of \<open>A\<close> that are not in \<open>B\<close>, each once; and the difference
  together with the intersection of \<open>A\<close> and \<open>B\<close> gives back the elements of \<open>A\<close>.
\<close>

theorem C9_set_arithmetic:
  "set (Union_ObjMetas A B) = set A \<union> set B \<and> distinct (Union_ObjMetas A B)
   \<and> set (SetDiff A B) = set A - set B \<and> distinct (SetDiff A B)
   \<and> set (SetDiff A B) \<union> (set A \<inter> set B) = set A"
  by (auto simp: Union_ObjMetas_def SetDiff_def Let_def foldl_snoc_id set_foldl_map_store
      set_foldl_map_delete distinct_foldl_map_store distinct_foldl_map_delete)

section \<open>Serialising and parsing an identity\<close>

lemma HasPrefix_sep: "HasPrefix (c # s) ''_'' = (c = CHR ''_'')"
  by (cases s) auto

lemma Index_none: "CHR ''_'' \<notin> set a \<Longrightarrow> Index a ''_'' = - 1"
  by (induction a) (auto simp: Let_def)

lemma Index_sep: "CHR ''_'' \<notin> set a \<Longrightarrow> Index (a @ CHR ''_'' # b) ''_'' = int (length a)"
  by (induction a) (auto simp: Let_def)

lemma LastIndex_none: "CHR ''_'' \<notin> set b \<Longrightarrow> LastIndex b ''_'' = - 1"
  by (induction b) (auto simp: Let_def)

lemma LastIndex_sep:
  "CHR ''_'' \<notin> set b \<Longrightarrow> LastIndex (a @ CHR ''_'' # b) ''_'' = int (length a)"
  by (induction a) (auto simp: Let_def LastIndex_none)

lemma ReplaceAll_decode_plain: "CHR ''_'' \<notin> set n \<Longrightarrow> ReplaceAll n ''__'' '':'' = n"
  by (induction n) auto

lemma ReplaceAll_decode_encode:
  "CHR ''_'' \<notin> set n \<Longrightarrow> ReplaceAll (ReplaceAll n '':'' ''__'') ''__'' '':'' = n"
  by (induction n) auto

lemma Contains_sep_iff: "Contains n ''_'' = (CHR ''_'' \<in> set n)"
  by (induction n) (auto simp: Contains_def Let_def)

lemma Parse_fields:
  assumes "CHR ''_'' \<notin> set ns" "CHR ''_'' \<notin> set g" "CHR ''_'' \<notin> set k"
    and "CHR ''_'' \<notin> set (ReplaceAll enc ''__'' '':'')"
  shows "ParseObjMetadata (ns @ ''_'' @ enc @ ''_'' @ g @ ''_'' @ k)
         = CreateObjMetadata ns (ReplaceAll enc ''__'' '':'') \<lparr>Group = g, Kind = k\<rparr>"
proof -
  define s2 where "s2 = enc @ CHR ''_'' # g"
  define s1 where "s1 = s2 @ CHR ''_'' # k"
  define s where "s = ns @ CHR ''_'' # s1"
  have i0: "Index s ''_'' = int (length ns)"
    unfolding s_def using assms(1) by (rule Index_sep)
  have i1: "LastIndex s1 ''_'' = int (length s2)"
    unfolding s1_def using assms(3) by (rule LastIndex_sep)
  have i2: "LastIndex s2 ''_'' = int (length enc)"
    unfolding s2_def using assms(2) by (rule LastIndex_sep)
  have t0: "take (length ns) s = ns" "drop (length ns + 1) s = s1"
    by (simp_all add: s_def)
  have t1: "take (length s2) s1 = s2" "drop (length s2 + 1) s1 = k"
    by (simp_all add: s1_def)
  have t2: "take (length enc) s2 = enc" "drop (length enc + 1) s2 = g"
    by (simp_all add: s2_def)
  have "ParseObjMetadata s
        = CreateObjMetadata ns (ReplaceAll enc ''__'' '':'') \<lparr>Group = g, Kind = k\<rparr>"
    unfolding ParseObjMetadata_def fieldSeparator_def colonTranscoded_def
    using assms(4) by (simp add: Let_def i0 i1 i2 t0 t1 t2 Contains_sep_iff del: One_nat_def)
  then show ?thesis
    by (simp add: s_def s1_def s2_def)
qed

lemma Parse_String:
  assumes "separator_free x"
  shows "ParseObjMetadata (String x) = CreateObjMetadata (Namespace x) (Name x) (GroupKind x)"
proof -
  define enc where "enc = (case RBACGroupKind (GroupKind x) of
                Some _ \<Rightarrow> ReplaceAll (Name x) '':'' ''__'' | None \<Rightarrow> Name x)"
  have dec: "ReplaceAll enc ''__'' '':'' = Name x"
    using assms by (simp add: enc_def separator_free_def ReplaceAll_decode_plain
        ReplaceAll_decode_encode split: option.split)
  have str: "String x = Namespace x @ ''_'' @ enc @ ''_'' @ Group (GroupKind x) @ ''_''
               @ Kind (GroupKind x)"
    unfolding String_def fieldSeparator_def colonTranscoded_def Let_def enc_def by (rule refl)
  have gk: "\<lparr>Group = Group (GroupKind x), Kind = Kind (GroupKind x)\<rparr> = GroupKind x"
    by simp
  have "ParseObjMetadata (String x)
        = CreateObjMetadata (Namespace x) (ReplaceAll enc ''__'' '':'')
            \<lparr>Group = Group (GroupKind x), Kind = Kind (GroupKind x)\<rparr>"
    unfolding str using assms by (intro Parse_fields) (simp_all add: separator_free_def dec)
  then show ?thesis
    by (simp only: dec gk)
qed

text \<open>
  C1 (as amended). For every identity with a non-empty name and kind whose four fields hold
  no \<open>_\<close>, parsing the serialised form gives the identity back, RBAC identities with
  \<open>:\<close> in the name included, and \<open>String\<close> is injective on such identities.
\<close>

theorem C1_parse_string_roundtrip:
  assumes "Name x \<noteq> []" and "Kind (GroupKind x) \<noteq> []" and "separator_free x"
    and "Name y \<noteq> []" and "Kind (GroupKind y) \<noteq> []" and "separator_free y"
  shows "ParseObjMetadata (String x) = Inr x \<and> (String x = String y \<longrightarrow> x = y)"
proof -
  have px: "ParseObjMetadata (String x) = Inr x"
    using assms(1-3) by (simp add: Parse_String CreateObjMetadata_def)
  have py: "ParseObjMetadata (String y) = Inr y"
    using assms(4-6) by (simp add: Parse_String CreateObjMetadata_def)
  have "x = y" if "String x = String y"
  proof -
    have "Inr x = ParseObjMetadata (String x)" using px by (rule sym)
    also have "\<dots> = ParseObjMetadata (String y)" using that by (rule arg_cong)
    also have "\<dots> = Inr y" by (rule py)
    finally show ?thesis by (rule Inr_inject)
  qed
  with px show ?thesis by blast
qed

theorem C1_parse_string_roundtrip_witness:
  "ParseObjMetadata (String \<lparr>Namespace = [], Name = ''system:admin'',
       GroupKind = \<lparr>Group = ''rbac.authorization.k8s.io'', Kind = ''ClusterRole''\<rparr>\<rparr>)
     = Inr \<lparr>Namespace = [], Name = ''system:admin'',
       GroupKind = \<lparr>Group = ''rbac.authorization.k8s.io'', Kind = ''ClusterRole''\<rparr>\<rparr>"
  using C1_parse_string_roundtrip [of
      "\<lparr>Namespace = [], Name = ''system:admin'',
        GroupKind = \<lparr>Group = ''rbac.authorization.k8s.io'', Kind = ''ClusterRole''\<rparr>\<rparr>"
      "\<lparr>Namespace = ''test-namespace'', Name = ''test-name'',
        GroupKind = \<lparr>Group = ''apps'', Kind = ''ReplicaSet''\<rparr>\<rparr>"]
  by (simp add: separator_free_def)

text \<open>
  The claim as stated, for every identity with a non-empty name and kind, fails: a name
  that holds the separator serialises to a string with five fields, which the parser
  rejects.
\<close>

theorem C1_counterexample:
  "Name \<lparr>Namespace = ''ns'', Name = ''a_b'', GroupKind = \<lparr>Group = ''apps'', Kind = ''Deployment''\<rparr>\<rparr> \<noteq> []
   \<and> Kind (GroupKind \<lparr>Namespace = ''ns'', Name = ''a_b'', GroupKind = \<lparr>Group = ''apps'', Kind = ''Deployment''\<rparr>\<rparr>) \<noteq> []
   \<and> ParseObjMetadata (String \<lparr>Namespace = ''ns'', Name = ''a_b'',
         GroupKind = \<lparr>Group = ''apps'', Kind = ''Deployment''\<rparr>\<rparr>)
       = Inl (TooManyFields ''a_b_apps'')"
  by code_simp

section \<open>The hash and set equality\<close>

lemma SetEquals_iff: "SetEquals A B = (set A = set B)"
proof -
  let ?mA = "foldl map_store [] A" and ?mB = "foldl map_store [] B"
  have dA: "distinct ?mA" and dB: "distinct ?mB"
    by (simp_all add: distinct_foldl_map_store)
  have sA: "set ?mA = set A" and sB: "set ?mB = set B"
    by (simp_all add: set_foldl_map_store)
  have lA: "length ?mA = card (set A)" using distinct_card [OF dA] sA by simp
  have lB: "length ?mB = card (set B)" using distinct_card [OF dB] sB by simp
  have "SetEquals A B = (card (set A) = card (set B) \<and> set B \<subseteq> set A)"
    by (auto simp: SetEquals_def Let_def lA lB sA sB list_all_iff)
  also have "\<dots> = (set A = set B)"
    by (metis List.finite_set card_subset_eq subset_refl)
  finally show ?thesis .
qed

lemma foldl_snoc_map: "foldl (\<lambda>acc x. acc @ [f x]) acc xs = acc @ map f xs"
  by (induction xs arbitrary: acc) simp_all

lemma calcHash_mset: "mset xs = mset ys \<Longrightarrow> calcHash xs = calcHash ys"
proof -
  assume "mset xs = mset ys"
  then have "sort xs = sort ys"
    by (intro properties_for_sort) simp_all
  then show ?thesis by (simp add: calcHash_def)
qed

text \<open>
  C4 (as amended). For slices \<open>S\<close> and \<open>S'\<close> without repeated elements, if
  \<open>SetEquals S S'\<close> holds then \<open>Hash S = Hash S'\<close>: the hash does not depend on the order.
\<close>

theorem C4_hash_of_equal_sets:
  assumes "distinct S" and "distinct S'" and "SetEquals S S'"
  shows "Hash S = Hash S'"
proof -
  from assms have "mset S = mset S'"
    by (simp add: SetEquals_iff set_eq_iff_mset_eq_distinct)
  then have "mset (map String S) = mset (map String S')"
    by simp
  then have "calcHash (map String S) = calcHash (map String S')"
    by (rule calcHash_mset)
  then show ?thesis
    by (simp add: Hash_def foldl_snoc_map)
qed

theorem C4_hash_of_equal_sets_witness:
  "Hash [\<lparr>Namespace = ''default'', Name = ''cm'', GroupKind = \<lparr>Group = [], Kind = ''ConfigMap''\<rparr>\<rparr>,
         \<lparr>Namespace = ''default'', Name = ''foo'', GroupKind = \<lparr>Group = ''apps'', Kind = ''Deployment''\<rparr>\<rparr>]
   = Hash [\<lparr>Namespace = ''default'', Name = ''foo'', GroupKind = \<lparr>Group = ''apps'', Kind = ''Deployment''\<rparr>\<rparr>,
           \<lparr>Namespace = ''default'', Name = ''cm'', GroupKind = \<lparr>Group = [], Kind = ''ConfigMap''\<rparr>\<rparr>]"
  using C4_hash_of_equal_sets [of
      "[\<lparr>Namespace = ''default'', Name = ''cm'', GroupKind = \<lparr>Group = [], Kind = ''ConfigMap''\<rparr>\<rparr>,
        \<lparr>Namespace = ''default'', Name = ''foo'', GroupKind = \<lparr>Group = ''apps'', Kind = ''Deployment''\<rparr>\<rparr>]"
      "[\<lparr>Namespace = ''default'', Name = ''foo'', GroupKind = \<lparr>Group = ''apps'', Kind = ''Deployment''\<rparr>\<rparr>,
        \<lparr>Namespace = ''default'', Name = ''cm'', GroupKind = \<lparr>Group = [], Kind = ''ConfigMap''\<rparr>\<rparr>]"]
  by (simp add: SetEquals_def map_store_def)

text \<open>
  The claim as stated, for every pair of slices, fails: \<open>SetEquals\<close> builds maps and so
  ignores a repeated element, while \<open>Hash\<close> writes the string of every element of the
  slice, repeated ones included.
\<close>

lemma String_cm:
  "String \<lparr>Namespace = ''default'', Name = ''cm'', GroupKind = \<lparr>Group = [], Kind = ''ConfigMap''\<rparr>\<rparr> = ''default_cm__ConfigMap''"
  by (simp add: String_def RBACGroupKind_def rbacv1_GroupName_def fieldSeparator_def)

theorem C4_counterexample:
  "SetEquals [\<lparr>Namespace = ''default'', Name = ''cm'', GroupKind = \<lparr>Group = [], Kind = ''ConfigMap''\<rparr>\<rparr>,
              \<lparr>Namespace = ''default'', Name = ''cm'', GroupKind = \<lparr>Group = [], Kind = ''ConfigMap''\<rparr>\<rparr>]
             [\<lparr>Namespace = ''default'', Name = ''cm'', GroupKind = \<lparr>Group = [], Kind = ''ConfigMap''\<rparr>\<rparr>]
   \<and> Hash [\<lparr>Namespace = ''default'', Name = ''cm'', GroupKind = \<lparr>Group = [], Kind = ''ConfigMap''\<rparr>\<rparr>,
            \<lparr>Namespace = ''default'', Name = ''cm'', GroupKind = \<lparr>Group = [], Kind = ''ConfigMap''\<rparr>\<rparr>] = Inr ''6e29595d''
   \<and> Hash [\<lparr>Namespace = ''default'', Name = ''cm'', GroupKind = \<lparr>Group = [], Kind = ''ConfigMap''\<rparr>\<rparr>] = Inr ''dcc64697''"
  by (simp add: SetEquals_def map_store_def Hash_def calcHash_def String_cm fnv32a_Write_def
      offset32_def prime32_def hexdigit_def)

section \<open>The apply task\<close>


lemma run_apply_fields:
  "run_apply cl ao info tc = (r, tc') \<Longrightarrow>
     r = ApplyOptions_Run cl ao info
     \<and> TaskChannel tc' = TaskChannel tc \<and> failedResources tc' = failedResources tc
     \<and> appliedResources tc' = appliedResources tc
     \<and> EventChannel tc' = EventChannel tc @ runEvents r
     \<and> clusterApplies tc' = clusterApplies tc @ [(ao, UnstructuredToObjMetaOrDie info)]"
  by (auto simp: run_apply_def Let_def)

lemma clientSideApply_kept:
  "clientSideApply cl info st tc = (r, tc') \<Longrightarrow>
     TaskChannel tc' = TaskChannel tc \<and> failedResources tc' = failedResources tc
     \<and> appliedResources tc' = appliedResources tc"
  by (auto simp: clientSideApply_def split: sum.splits dest: run_apply_fields)

lemma applyWithFallback_kept:
  assumes "applyWithFallback cl a ao info tc = (r, tc')"
  shows "TaskChannel tc' = TaskChannel tc \<and> failedResources tc' = failedResources tc
     \<and> appliedResources tc' = appliedResources tc"
proof -
  obtain r1 tc1 where r1: "run_apply cl ao info tc = (r1, tc1)" by force
  note k1 = run_apply_fields [OF r1]
  show ?thesis
  proof (cases "\<exists>err. runError r1 = Some err \<and> ServerSideApply (ServerSideOptions a)
                  \<and> isAPIService info \<and> isStreamError err")
    case True
    then have "clientSideApply cl info (DryRunStrategy a) tc1 = (r, tc')"
      using assms r1 by (auto simp: applyWithFallback_def)
    from clientSideApply_kept [OF this] k1 show ?thesis by simp
  next
    case False
    then have "(r1, tc1) = (r, tc')"
      using assms r1 by (auto simp: applyWithFallback_def split: option.splits if_splits)
    with k1 show ?thesis by simp
  qed
qed

lemma TaskChannel_applyInfo [simp]: "TaskChannel (applyInfo cl a ao i info tc) = TaskChannel tc"
proof -
  obtain r tc' where r: "applyWithFallback cl a ao info tc = (r, tc')" by force
  from applyWithFallback_kept [OF r] show ?thesis
    by (simp add: applyInfo_def r CaptureResourceFailure_def sendEvent_def ResourceApplied_def
        split: option.splits sum.splits prod.splits)
qed

lemma TaskChannel_applyObject [simp]: "TaskChannel (applyObject cl a ao obj tc) = TaskChannel tc"
  by (simp add: applyObject_def Let_def CaptureResourceFailure_def sendEvent_def
      split: option.splits prod.splits)

lemma TaskChannel_applyObjects [simp]: "TaskChannel (applyObjects cl a ao objs tc) = TaskChannel tc"
  by (induction objs arbitrary: tc) simp_all

lemma TaskChannel_sendBatch [simp]: "TaskChannel (sendBatchApplyEvents objs err tc) = TaskChannel tc"
  by (induction objs arbitrary: tc) (simp_all add: Let_def CaptureResourceFailure_def sendEvent_def)












section \<open>The apply-time mutator\<close>









text \<open>
  C6. Reading or writing a field with the empty path or with a path that begins with \<open>$.\<close>
  returns an error, and the write leaves the object as it was. Every other path is handed
  to \<open>kyq\<close>, whose result is returned, an error wrapped.
\<close>

theorem C6_guarded_paths:
  "(path = [] \<longrightarrow>
      readFieldValue X obj path = Inl EmptyPathExpression
      \<and> writeFieldValue X obj path v = (obj, Some EmptyPathExpression))
   \<and> (HasPrefix path ''$.'' \<longrightarrow>
      readFieldValue X obj path = Inl PathStartsWithDollar
      \<and> writeFieldValue X obj path v = (obj, Some PathStartsWithDollar))
   \<and> (path \<noteq> [] \<and> \<not> HasPrefix path ''$.'' \<longrightarrow>
      readFieldValue X obj path =
        (case kyq_Get X obj path of
           Inl err \<Rightarrow> Inl (ReadResourceFieldFailed path err)
         | Inr r \<Rightarrow> Inr r)
      \<and> writeFieldValue X obj path v =
        (case kyq_Set X obj path v of
           (obj', Some err) \<Rightarrow> (obj', Some (ReadResourceFieldFailed path err))
         | (obj', None) \<Rightarrow> (obj', None)))"
  by (auto simp: readFieldValue_def writeFieldValue_def split: sum.splits prod.splits)


text \<open>The two guarded paths, and a path that the parser of the example refuses.\<close>

theorem C6_guarded_paths_witness:
  "readFieldValue ex_libraries ex_target [] = Inl EmptyPathExpression
   \<and> writeFieldValue ex_libraries ex_target [] (VString ''Secret'')
       = (ex_target, Some EmptyPathExpression)
   \<and> HasPrefix ''$.kind'' ''$.''
   \<and> readFieldValue ex_libraries ex_target ''$.kind'' = Inl PathStartsWithDollar
   \<and> writeFieldValue ex_libraries ex_target ''$.kind'' (VString ''Secret'')
       = (ex_target, Some PathStartsWithDollar)
   \<and> \<not> HasPrefix ''kind'' ''$.''
   \<and> readFieldValue ex_libraries ex_target ''kind''
       = Inl (ReadResourceFieldFailed ''kind'' (LibraryError ''bad expression''))
   \<and> writeFieldValue ex_libraries ex_target ''kind'' (VString ''Secret'')
       = (ex_target, Some (ReadResourceFieldFailed ''kind'' (LibraryError ''bad expression'')))"
  using C6_guarded_paths [of "[]" ex_libraries ex_target "VString ''Secret''"]
    C6_guarded_paths [of "''$.kind''" ex_libraries ex_target "VString ''Secret''"]
    C6_guarded_paths [of "''kind''" ex_libraries ex_target "VString ''Secret''"]
  by (simp add: ex_libraries_def ex_target_def ex_expressions_def ex_quote_def
      readFieldValue_def writeFieldValue_def
      kyq_Get_def kyq_Set_def evaluateYaml_def evaluateStream_def Let_def)

text \<open>
  C6 as the specification states it asks for an error on every path that does not begin
  with a dot. The path \<open>(.kind)\<close> does not begin with one and passes both guards; the
  library decides, and with it the field is read, and written.
\<close>

theorem C6_counterexample:
  "\<not> HasPrefix ''(.kind)'' ''.''
   \<and> readFieldValue ex_libraries ex_target ''(.kind)'' = Inr (VString ''ConfigMap'', True)
   \<and> writeFieldValue ex_libraries ex_target ''(.kind)'' (VString ''Secret'')
       = ([(''kind'', VString ''Secret''),
           (''spec'', VMap [(''url'', VString ''https://${SECRET}/path'')])], None)"
  by (simp add: ex_libraries_def ex_target_def ex_expressions_def ex_quote_def
      readFieldValue_def writeFieldValue_def
      kyq_Get_def kyq_Set_def evaluateYaml_def evaluateStream_def Let_def)

end
